theory Spec2Isabelle
  imports Main "HOL-Library.Word"
begin

section \<open>The transparency filter of scripts/make-logo-transparent.py\<close>

text \<open>
  The script has one function, \<^verbatim>\<open>make_transparent(input_path, output_path, threshold)\<close>:
  it opens an image, converts it to RGBA, walks over every pixel in two nested
  \<^verbatim>\<open>for\<close> loops, sets the alpha of each pixel whose three colour channels reach the
  threshold to 0, and saves the buffer as a PNG. The embedding keeps that shape: the
  pixel buffer is a store indexed by coordinates that the loop body updates in place, the
  loops are a recursion over \<^verbatim>\<open>range(height)\<close> and \<^verbatim>\<open>range(width)\<close>, the file system is an
  explicit state, and every exception is a value.
\<close>

subsection \<open>Data\<close>

text \<open>
  A channel is what the image library hands out for an 8-bit band: an integer of
  0..255. A pixel of an RGBA image is the tuple \<^verbatim>\<open>(r, g, b, a)\<close>. The threshold is a
  Python integer, so it is an unbounded \<open>int\<close>; nothing in the code restricts it to
  0..255.
\<close>

type_synonym u8 = "8 word"
type_synonym rgb = "u8 \<times> u8 \<times> u8"
type_synonym rgba = "u8 \<times> u8 \<times> u8 \<times> u8"
type_synonym coord = "nat \<times> nat"
type_synonym path = string

definition rgb_of :: "rgba \<Rightarrow> rgb" where
  "rgb_of v = (case v of (r, g, b, a) \<Rightarrow> (r, g, b))"

definition alpha_of :: "rgba \<Rightarrow> u8" where
  "alpha_of v = (case v of (r, g, b, a) \<Rightarrow> a)"

text \<open>
  The image after \<^verbatim>\<open>convert('RGBA')\<close>: \<^verbatim>\<open>img.size\<close> and the pixel access object
  \<^verbatim>\<open>pixels = img.load()\<close>, which is indexed by \<^verbatim>\<open>[x, y]\<close>. The store is total;
  only coordinates with \<open>x < width\<close> and \<open>y < height\<close> are pixels of the image, and
  the access functions below refuse every other coordinate.
\<close>

record image =
  width :: nat
  height :: nat
  pixels :: "coord \<Rightarrow> rgba"

text \<open>
  What \<^verbatim>\<open>Image.open\<close> returns: an image whose format has no alpha channel, given by
  its size and the colour of each pixel, or an image that has one.
\<close>

datatype pil_image = RGB_image nat nat "coord \<Rightarrow> rgb" | RGBA_image image

datatype file_content = Image_file pil_image | Other_file

record filesystem =
  files :: "path \<rightharpoonup> file_content"
  writable :: "path \<Rightarrow> bool"

datatype error = FileError | DecodeError | WriteError | IndexError

subsection \<open>The image library\<close>

text \<open>
  Modelled from the spec: \<^verbatim>\<open>Image.open\<close> of the image library (not part of the
  repository). "Load the image at the input path; fail with a FileError if it does not
  exist or is not a decodable image", and section 7 of the spec: a missing path is a
  FileError, a file that is not a valid image a DecodeError.
\<close>

definition Image_open :: "filesystem \<Rightarrow> path \<Rightarrow> error + pil_image" where
  "Image_open fs p =
     (case files fs p of
        None \<Rightarrow> Inl FileError
      | Some Other_file \<Rightarrow> Inl DecodeError
      | Some (Image_file im) \<Rightarrow> Inr im)"

text \<open>
  Modelled from the spec: \<^verbatim>\<open>convert('RGBA')\<close> of the image library. "Ensure the pixel
  format includes an alpha channel (if the source format lacks one, synthesize
  alpha = 255 for every pixel)".
\<close>

primrec convert_RGBA :: "pil_image \<Rightarrow> image" where
  "convert_RGBA (RGB_image w h px) =
     \<lparr>width = w, height = h, pixels = (\<lambda>p. case px p of (r, g, b) \<Rightarrow> (r, g, b, 255))\<rparr>"
| "convert_RGBA (RGBA_image img) = img"

text \<open>
  Modelled from the spec: \<^verbatim>\<open>img.save(output_path, 'PNG')\<close> of the image library.
  "Encode the resulting buffer as PNG and write it to the output path, overwriting any
  existing file"; "WriteError: output path not writable". PNG is lossless, so the file
  holds the RGBA buffer itself.
\<close>

definition save_PNG :: "image \<Rightarrow> filesystem \<Rightarrow> path \<Rightarrow> error + filesystem" where
  "save_PNG img fs p =
     (if writable fs p
      then Inr (fs\<lparr>files := (files fs)(p \<mapsto> Image_file (RGBA_image img))\<rparr>)
      else Inl WriteError)"

text \<open>
  Modelled from the spec: reading and writing one pixel through the pixel access object,
  \<^verbatim>\<open>pixels[x, y]\<close> and \<^verbatim>\<open>pixels[x, y] = v\<close>. The data model of the spec is a grid
  "with explicit width and height"; a coordinate outside the grid is an error of the
  library, not a pixel.
\<close>

definition in_grid :: "image \<Rightarrow> coord \<Rightarrow> bool" where
  "in_grid img p = (fst p < width img \<and> snd p < height img)"

definition getpixel :: "image \<Rightarrow> coord \<Rightarrow> error + rgba" where
  "getpixel img p = (if in_grid img p then Inr (pixels img p) else Inl IndexError)"

definition putpixel :: "image \<Rightarrow> coord \<Rightarrow> rgba \<Rightarrow> error + image" where
  "putpixel img p v =
     (if in_grid img p then Inr (img\<lparr>pixels := (pixels img)(p := v)\<rparr>) else Inl IndexError)"

subsection \<open>The function \<^verbatim>\<open>make_transparent\<close>\<close>

text \<open>
  A \<^verbatim>\<open>for\<close> loop over a sequence that threads the loop's state and stops at the first
  exception.
\<close>

primrec for_each :: "('a \<Rightarrow> 's \<Rightarrow> error + 's) \<Rightarrow> 'a list \<Rightarrow> 's \<Rightarrow> error + 's" where
  "for_each f [] s = Inr s"
| "for_each f (x # xs) s =
     (case f x s of Inl e \<Rightarrow> Inl e | Inr s' \<Rightarrow> for_each f xs s')"

text \<open>
  Lines 24 to 28, the body of the inner loop at the coordinate \<open>(x, y)\<close>:
  \<^verbatim>\<open>
    r, g, b, a = pixels[x, y]
    if r >= threshold and g >= threshold and b >= threshold:
        pixels[x, y] = (r, g, b, 0)
  \<close>
\<close>

definition loop_body :: "int \<Rightarrow> coord \<Rightarrow> image \<Rightarrow> error + image" where
  "loop_body threshold p img =
     (case getpixel img p of
        Inl e \<Rightarrow> Inl e
      | Inr (r, g, b, a) \<Rightarrow>
          if uint r \<ge> threshold \<and> uint g \<ge> threshold \<and> uint b \<ge> threshold
          then putpixel img p (r, g, b, 0)
          else Inr img)"

text \<open>
  Lines 18 to 28: \<^verbatim>\<open>width, height = img.size\<close> is read once, then
  \<^verbatim>\<open>for y in range(height): for x in range(width): ...\<close>.
\<close>

definition transparent_pass :: "int \<Rightarrow> image \<Rightarrow> error + image" where
  "transparent_pass threshold img =
     for_each (\<lambda>y. for_each (\<lambda>x. loop_body threshold (x, y)) [0..<width img])
       [0..<height img] img"

text \<open>
  The whole function. An exception of any step propagates: nothing catches it, the steps
  after it do not run, and the file system is as it was. The result is the outcome and the
  file system afterwards. The two \<^verbatim>\<open>print\<close> calls write to standard output only and are
  left out.
\<close>

definition make_transparent ::
    "filesystem \<Rightarrow> path \<Rightarrow> path \<Rightarrow> int \<Rightarrow> (error + unit) \<times> filesystem" where
  "make_transparent fs input_path output_path threshold =
     (case Image_open fs input_path of
        Inl e \<Rightarrow> (Inl e, fs)
      | Inr src \<Rightarrow>
          (case transparent_pass threshold (convert_RGBA src) of
             Inl e \<Rightarrow> (Inl e, fs)
           | Inr img \<Rightarrow>
               (case save_PNG img fs output_path of
                  Inl e \<Rightarrow> (Inl e, fs)
                | Inr fs' \<Rightarrow> (Inr (), fs'))))"

text \<open>The entry point: the logo is converted in place with threshold 240.\<close>

definition script_main :: "filesystem \<Rightarrow> (error + unit) \<times> filesystem" where
  "script_main fs = make_transparent fs ''docs/public/logo.png'' ''docs/public/logo.png'' 240"

subsection \<open>The transform as the spec words it\<close>

text \<open>
  The spec's rule for one pixel: "if red \<open>\<ge>\<close> threshold AND green \<open>\<ge>\<close> threshold AND
  blue \<open>\<ge>\<close> threshold, set that pixel's alpha to 0; otherwise leave the pixel
  unchanged", and the transform as one map of that rule over the grid. These two follow
  the spec's words; the theorems below compare them with the loops of the code.
\<close>

definition pixel_rule :: "int \<Rightarrow> rgba \<Rightarrow> rgba" where
  "pixel_rule threshold v =
     (case v of (r, g, b, a) \<Rightarrow>
        if threshold \<le> uint r \<and> threshold \<le> uint g \<and> threshold \<le> uint b
        then (r, g, b, 0) else (r, g, b, a))"

definition map_pixels :: "int \<Rightarrow> image \<Rightarrow> image" where
  "map_pixels threshold img =
     img\<lparr>pixels := (\<lambda>p. if in_grid img p then pixel_rule threshold (pixels img p)
                         else pixels img p)\<rparr>"

text \<open>
  The input as the spec reads it: the colour of a pixel of the opened image, and its
  alpha, "with a=255 if input had no alpha".
\<close>

primrec source_width :: "pil_image \<Rightarrow> nat" where
  "source_width (RGB_image w h px) = w"
| "source_width (RGBA_image img) = width img"

primrec source_height :: "pil_image \<Rightarrow> nat" where
  "source_height (RGB_image w h px) = h"
| "source_height (RGBA_image img) = height img"

primrec source_rgb :: "pil_image \<Rightarrow> coord \<Rightarrow> rgb" where
  "source_rgb (RGB_image w h px) p = px p"
| "source_rgb (RGBA_image img) p = rgb_of (pixels img p)"

primrec source_alpha :: "pil_image \<Rightarrow> coord \<Rightarrow> u8" where
  "source_alpha (RGB_image w h px) p = 255"
| "source_alpha (RGBA_image img) p = alpha_of (pixels img p)"

text \<open>
  The grid "in row-major order": the coordinates in the order in which the two loops of
  the code visit them, and the pixels of an image read in that order, one list a row.
\<close>

definition row_major :: "nat \<Rightarrow> nat \<Rightarrow> coord list" where
  "row_major w h = concat (map (\<lambda>y. map (\<lambda>x. (x, y)) [0..<w]) [0..<h])"

definition rows_of :: "image \<Rightarrow> rgba list list" where
  "rows_of img = map (\<lambda>y. map (\<lambda>x. pixels img (x, y)) [0..<width img]) [0..<height img]"

subsection \<open>Concrete inputs\<close>

text \<open>
  The 2 x 2 image of the spec's end-to-end property, stored without an alpha channel
  at the path the script uses; a single pixel one below the threshold 240 in its red
  channel only; and a 2 x 1 buffer with an alpha channel whose first pixel is dark and
  already fully transparent and whose second is near white and translucent, also stored
  as a file.
\<close>

definition logo_rgb :: "coord \<Rightarrow> rgb" where
  "logo_rgb = (\<lambda>p. (0, 0, 0))
     ((0, 0) := (255, 255, 255), (1, 0) := (0, 0, 0),
      (0, 1) := (240, 240, 240), (1, 1) := (239, 239, 239))"

definition logo :: pil_image where
  "logo = RGB_image 2 2 logo_rgb"

definition logo_fs :: filesystem where
  "logo_fs = \<lparr>files = [''docs/public/logo.png'' \<mapsto> Image_file logo,
                          ''docs/README.md'' \<mapsto> Other_file],
              writable = (\<lambda>p. p \<noteq> ''/proc/version'')\<rparr>"

definition edge :: pil_image where
  "edge = RGB_image 1 1 (\<lambda>p. (239, 240, 240))"

definition faded :: image where
  "faded = \<lparr>width = 2, height = 1,
             pixels = (\<lambda>p. (0, 0, 0, 0))((0, 0) := (10, 20, 30, 0), (1, 0) := (250, 251, 252, 200))\<rparr>"

definition faded_fs :: filesystem where
  "faded_fs = \<lparr>files = [''docs/public/faded.png'' \<mapsto> Image_file (RGBA_image faded)],
               writable = (\<lambda>p. True)\<rparr>"

section \<open>The loops\<close>

lemma pixel_rule_idem: "pixel_rule t (pixel_rule t v) = pixel_rule t v"
  by (cases v) (simp add: pixel_rule_def)

lemma loop_body_in_grid:
  assumes "in_grid img p"
  shows "loop_body t p img = Inr (img\<lparr>pixels := (pixels img)(p := pixel_rule t (pixels img p))\<rparr>)"
proof (cases "pixels img p")
  case (fields r g b a)
  show ?thesis
  proof (cases "t \<le> uint r \<and> t \<le> uint g \<and> t \<le> uint b")
    case True
    with assms fields show ?thesis
      by (simp add: loop_body_def getpixel_def putpixel_def pixel_rule_def)
  next
    case False
    have "(pixels img)(p := pixels img p) = pixels img"
      by simp
    with False assms fields show ?thesis
      by (auto simp add: loop_body_def getpixel_def pixel_rule_def)
  qed
qed

lemma set_row_major: "set (row_major w h) = {p. fst p < w \<and> snd p < h}"
  by (auto simp add: row_major_def)

lemma for_each_append:
  "for_each f (xs @ ys) s =
     (case for_each f xs s of Inl e \<Rightarrow> Inl e | Inr s' \<Rightarrow> for_each f ys s')"
  by (induction xs arbitrary: s) (auto split: sum.splits)

lemma for_each_map_state: "for_each f (map g xs) s = for_each (\<lambda>x. f (g x)) xs s"
  by (induction xs arbitrary: s) (auto split: sum.splits)

lemma for_each_map: "for_each f (map g xs) = for_each (\<lambda>x. f (g x)) xs"
  by (rule ext) (rule for_each_map_state)

lemma for_each_concat: "for_each f (concat xss) s = for_each (for_each f) xss s"
  by (induction xss arbitrary: s) (auto simp add: for_each_append split: sum.splits)

text \<open>The nested loops are one traversal of the grid in row-major order.\<close>

lemma transparent_pass_row_major:
  "transparent_pass t img = for_each (loop_body t) (row_major (width img) (height img)) img"
  by (simp add: transparent_pass_def row_major_def for_each_concat for_each_map)

text \<open>
  Any traversal that stays inside the grid succeeds, and leaves the rule applied at exactly
  the coordinates it visited. The image is generalised: every step changes it.
\<close>

lemma for_each_loop_body:
  assumes "\<forall>p \<in> set ps. in_grid img p"
  shows "for_each (loop_body t) ps img =
     Inr (img\<lparr>pixels :=
       (\<lambda>p. if p \<in> set ps then pixel_rule t (pixels img p) else pixels img p)\<rparr>)"
  using assms
proof (induction ps arbitrary: img)
  case Nil
  show ?case by simp
next
  case (Cons q ps)
  let ?img' = "img\<lparr>pixels := (pixels img)(q := pixel_rule t (pixels img q))\<rparr>"
  from Cons.prems have q: "in_grid img q" by simp
  have grid: "in_grid ?img' = in_grid img"
    by (simp add: in_grid_def fun_eq_iff)
  from Cons.prems have "\<forall>p \<in> set ps. in_grid ?img' p"
    by (simp add: grid)
  then have "for_each (loop_body t) ps ?img' =
     Inr (?img'\<lparr>pixels :=
       (\<lambda>p. if p \<in> set ps then pixel_rule t (pixels ?img' p) else pixels ?img' p)\<rparr>)"
    by (rule Cons.IH)
  moreover have
    "(\<lambda>p. if p \<in> set ps then pixel_rule t (pixels ?img' p) else pixels ?img' p) =
     (\<lambda>p. if p \<in> set (q # ps) then pixel_rule t (pixels img p) else pixels img p)"
    by (auto simp add: fun_eq_iff pixel_rule_idem)
  ultimately show ?case
    by (simp add: loop_body_in_grid [OF q])
qed

text \<open>The pass never raises, and it is the spec's map over the grid.\<close>

lemma transparent_pass_map_pixels: "transparent_pass t img = Inr (map_pixels t img)"
proof -
  have "\<forall>p \<in> set (row_major (width img) (height img)). in_grid img p"
    by (simp add: set_row_major in_grid_def)
  then show ?thesis
    by (simp add: transparent_pass_row_major for_each_loop_body map_pixels_def
        set_row_major in_grid_def)
qed

lemma loop_body_outside: "\<not> in_grid img p \<Longrightarrow> loop_body t p img = Inl IndexError"
  by (simp add: loop_body_def getpixel_def)


section \<open>The pass and the whole function in closed form\<close>

lemma map_pixels_size:
  "width (map_pixels t img) = width img" "height (map_pixels t img) = height img"
  by (simp_all add: map_pixels_def)

lemma map_pixels_at:
  "pixels (map_pixels t img) p =
     (if in_grid img p then pixel_rule t (pixels img p) else pixels img p)"
  by (simp add: map_pixels_def)

lemma map_pixels_idem: "map_pixels t (map_pixels t img) = map_pixels t img"
  by (simp add: map_pixels_def in_grid_def pixel_rule_idem fun_eq_iff)

lemma convert_RGBA_size:
  "width (convert_RGBA src) = source_width src" "height (convert_RGBA src) = source_height src"
  by (cases src; simp)+

lemma convert_RGBA_at:
  "pixels (convert_RGBA src) p =
     (case source_rgb src p of (r, g, b) \<Rightarrow> (r, g, b, source_alpha src p))"
  by (cases src) (auto simp add: rgb_of_def alpha_of_def split: prod.splits)

text \<open>
  A run whose input opens and whose output path can be written succeeds, and writes the
  buffer the pass produced.
\<close>

lemma make_transparent_ok:
  assumes "Image_open fs input_path = Inr src" and "writable fs output_path"
  shows "make_transparent fs input_path output_path t =
     (Inr (), fs\<lparr>files := (files fs)(output_path \<mapsto>
        Image_file (RGBA_image (map_pixels t (convert_RGBA src))))\<rparr>)"
  using assms by (simp add: make_transparent_def transparent_pass_map_pixels save_PNG_def)

lemma make_transparent_not_writable:
  assumes "Image_open fs input_path = Inr src" and "\<not> writable fs output_path"
  shows "make_transparent fs input_path output_path t = (Inl WriteError, fs)"
  using assms by (simp add: make_transparent_def transparent_pass_map_pixels save_PNG_def)

text \<open>
  Running the function again on the file it wrote, as the script does when it is started
  twice, writes the same image once more.
\<close>

lemma make_transparent_twice:
  assumes "Image_open fs input_path = Inr src"
    and "writable fs output_path" and "writable fs again_path"
    and "make_transparent fs input_path output_path t = (res, fs')"
  shows "res = Inr () \<and>
         (\<exists>fs''. make_transparent fs' output_path again_path t = (Inr (), fs'') \<and>
            files fs'' again_path = files fs' output_path)"
  using assms
  by (auto simp add: make_transparent_ok make_transparent_def Image_open_def
      transparent_pass_map_pixels save_PNG_def map_pixels_idem)

section \<open>The pass in terms of the source image\<close>

text \<open>
  The loaded buffer is the converted source, so what the pass does to a pixel can be
  said about the opened image, "with a=255 if input had no alpha".
\<close>

lemma alpha_of_pixel_rule: "alpha_of (pixel_rule t v) \<le> alpha_of v"
  by (cases v) (simp add: pixel_rule_def alpha_of_def)

lemma unchanged_pixel_of_source:
  assumes "x < source_width src" and "y < source_height src"
    and "source_rgb src (x, y) = (r, g, b)"
    and "uint r < threshold \<or> uint g < threshold \<or> uint b < threshold"
  shows "\<exists>out. transparent_pass threshold (convert_RGBA src) = Inr out \<and>
           pixels out (x, y) = (r, g, b, source_alpha src (x, y))"
  using assms
  by (auto simp add: transparent_pass_map_pixels map_pixels_at in_grid_def pixel_rule_def
      convert_RGBA_at)

lemma alpha_of_source_never_increases:
  "\<exists>out. transparent_pass threshold (convert_RGBA src) = Inr out \<and>
         (\<forall>p. alpha_of (pixels out p) \<le> source_alpha src p)"
proof -
  have "alpha_of (pixels (convert_RGBA src) p) = source_alpha src p" for p
    by (simp add: convert_RGBA_at alpha_of_def split: prod.splits)
  then have
    "alpha_of (pixels (map_pixels threshold (convert_RGBA src)) p) \<le> source_alpha src p" for p
    using alpha_of_pixel_rule [of threshold "pixels (convert_RGBA src) p"]
    by (simp add: map_pixels_at)
  then show ?thesis
    by (simp add: transparent_pass_map_pixels)
qed

section \<open>The claims\<close>

text \<open>
  Claim C1. Every pixel of the loaded image whose red, green and blue channels are all
  greater than or equal to the threshold leaves the pass with alpha 0 and with its red,
  green and blue channels as they were. The comparison is inclusive: the witness is a
  pixel exactly at (240, 240, 240) under the threshold 240.
\<close>

theorem near_white_pixel_becomes_transparent:
  assumes "x < width img" and "y < height img"
    and "pixels img (x, y) = (r, g, b, a)"
    and "threshold \<le> uint r" and "threshold \<le> uint g" and "threshold \<le> uint b"
  shows "\<exists>out. transparent_pass threshold img = Inr out \<and> pixels out (x, y) = (r, g, b, 0)"
  using assms
  by (simp add: transparent_pass_map_pixels map_pixels_at in_grid_def pixel_rule_def)

theorem near_white_pixel_becomes_transparent_witness:
  "\<exists>out. transparent_pass 240 (convert_RGBA logo) = Inr out \<and>
         pixels out (0, 1) = (240, 240, 240, 0)"
  using near_white_pixel_becomes_transparent [of 0 "convert_RGBA logo" 1 240 240 240 255 240]
  by (simp add: logo_def logo_rgb_def)

text \<open>
  Claim C2. Every pixel of the loaded image with at least one of red, green and blue
  strictly below the threshold leaves the pass identical in all four channels. The loaded
  image is the buffer after the conversion of line 15, so the alpha of a source without an
  alpha channel is 255 there (\<open>unchanged_pixel_of_source\<close> above says it in terms of
  the source). The witness is such a pixel, (239, 240, 240) under the threshold 240: it
  stays opaque.
\<close>

theorem darker_pixel_is_unchanged:
  assumes "x < width img" and "y < height img"
    and "pixels img (x, y) = (r, g, b, a)"
    and "uint r < threshold \<or> uint g < threshold \<or> uint b < threshold"
  shows "\<exists>out. transparent_pass threshold img = Inr out \<and> pixels out (x, y) = (r, g, b, a)"
  using assms
  by (auto simp add: transparent_pass_map_pixels map_pixels_at in_grid_def pixel_rule_def)

theorem darker_pixel_is_unchanged_witness:
  "\<exists>out. transparent_pass 240 (convert_RGBA edge) = Inr out \<and>
         pixels out (0, 0) = (239, 240, 240, 255)"
  using darker_pixel_is_unchanged [of 0 "convert_RGBA edge" 0 239 240 240 255 240]
  by (simp add: edge_def)

text \<open>
  Claim C3. For every input image, the image the function writes has the width and the
  height of the input, and nothing of the image but alpha values differs: the red, green
  and blue channels at every coordinate are those of the input.
\<close>

theorem output_has_input_dimensions:
  assumes "Image_open fs input_path = Inr src" and "writable fs output_path"
  shows "\<exists>out. make_transparent fs input_path output_path threshold =
             (Inr (), fs\<lparr>files := (files fs)(output_path \<mapsto>
                Image_file (RGBA_image out))\<rparr>) \<and>
           width out = source_width src \<and> height out = source_height src \<and>
           (\<forall>p. rgb_of (pixels out p) = source_rgb src p)"
proof -
  have "rgb_of (pixel_rule threshold v) = rgb_of v" for v
    by (cases v) (simp add: pixel_rule_def rgb_of_def)
  then have "rgb_of (pixels (map_pixels threshold (convert_RGBA src)) p) = source_rgb src p"
    for p
    by (simp add: map_pixels_at convert_RGBA_at rgb_of_def split: prod.splits)
  with assms show ?thesis
    by (intro exI [of _ "map_pixels threshold (convert_RGBA src)"])
      (simp add: make_transparent_ok map_pixels_size convert_RGBA_size)
qed

theorem output_has_input_dimensions_witness:
  "\<exists>out. make_transparent logo_fs ''docs/public/logo.png'' ''docs/public/copy.png'' 240 =
             (Inr (), logo_fs\<lparr>files := (files logo_fs)(''docs/public/copy.png'' \<mapsto>
                Image_file (RGBA_image out))\<rparr>) \<and>
         width out = 2 \<and> height out = 2 \<and>
         (\<forall>p. rgb_of (pixels out p) = logo_rgb p)"
  using output_has_input_dimensions
    [of logo_fs "''docs/public/logo.png''" logo "''docs/public/copy.png''" 240]
  by (simp add: logo_fs_def logo_def Image_open_def)

text \<open>
  Claim C4. The transform is idempotent: for every image and every threshold the pass
  returns a buffer, and the pass over that buffer with the same threshold returns the
  very same buffer.
\<close>

theorem pass_is_idempotent:
  "\<exists>out. transparent_pass threshold img = Inr out \<and> transparent_pass threshold out = Inr out"
  by (simp add: transparent_pass_map_pixels map_pixels_idem)

theorem pass_is_idempotent_witness:
  "\<exists>out. transparent_pass 240 faded = Inr out \<and> transparent_pass 240 out = Inr out"
  by (rule pass_is_idempotent)

text \<open>
  Claim C5. The order in which the pixels are visited does not matter: running the loop
  body over the coordinates of the grid in any order, even with repeats, gives what the
  two nested loops give, and that is the map of the one-pixel rule, a function of the
  pixel and the threshold alone, over the grid.
\<close>

theorem traversal_order_is_irrelevant:
  assumes "set ps = set (row_major (width img) (height img))"
  shows "for_each (loop_body threshold) ps img = transparent_pass threshold img \<and>
         transparent_pass threshold img = Inr (map_pixels threshold img)"
proof -
  from assms have "\<forall>p \<in> set ps. in_grid img p"
    by (simp add: set_row_major in_grid_def)
  then have "for_each (loop_body threshold) ps img = Inr (map_pixels threshold img)"
    using assms
    by (simp add: for_each_loop_body map_pixels_def set_row_major in_grid_def)
  then show ?thesis
    by (simp add: transparent_pass_map_pixels)
qed

theorem traversal_order_is_irrelevant_witness:
  "for_each (loop_body 240) [(1, 1), (0, 1), (1, 0), (0, 0), (1, 1)] (convert_RGBA logo) =
     transparent_pass 240 (convert_RGBA logo) \<and>
   transparent_pass 240 (convert_RGBA logo) = Inr (map_pixels 240 (convert_RGBA logo))"
proof -
  have "set [(1, 1), (0, 1), (1, 0), (0, 0), (1, 1)] =
        set (row_major (width (convert_RGBA logo)) (height (convert_RGBA logo)))"
    by (simp add: logo_def row_major_def upt_rec) blast
  then show ?thesis
    by (rule traversal_order_is_irrelevant)
qed

text \<open>
  Claim C6. On a 2 x 2 image without an alpha channel whose pixels are, row by row,
  (255, 255, 255), (0, 0, 0), (240, 240, 240) and (239, 239, 239), the function with
  threshold 240 succeeds and writes an image whose pixels have the alpha values 0, 255, 0
  and 255, each with its red, green and blue channels unchanged.
\<close>

theorem two_by_two_example:
  assumes "files fs input_path = Some (Image_file (RGB_image 2 2 px))"
    and "px (0, 0) = (255, 255, 255)" and "px (1, 0) = (0, 0, 0)"
    and "px (0, 1) = (240, 240, 240)" and "px (1, 1) = (239, 239, 239)"
    and "writable fs output_path"
  shows "\<exists>out. make_transparent fs input_path output_path 240 =
             (Inr (), fs\<lparr>files := (files fs)(output_path \<mapsto>
                Image_file (RGBA_image out))\<rparr>) \<and>
           rows_of out = [[(255, 255, 255, 0), (0, 0, 0, 255)],
                          [(240, 240, 240, 0), (239, 239, 239, 255)]]"
proof -
  let ?out = "map_pixels 240 (convert_RGBA (RGB_image 2 2 px))"
  from assms(1) have "Image_open fs input_path = Inr (RGB_image 2 2 px)"
    by (simp add: Image_open_def)
  then have "make_transparent fs input_path output_path 240 =
      (Inr (), fs\<lparr>files := (files fs)(output_path \<mapsto> Image_file (RGBA_image ?out))\<rparr>)"
    using assms(6) by (rule make_transparent_ok)
  moreover have "[0..<2] = [0, Suc 0]"
    by (simp add: upt_rec)
  with assms(2-5) have "rows_of ?out = [[(255, 255, 255, 0), (0, 0, 0, 255)],
                                        [(240, 240, 240, 0), (239, 239, 239, 255)]]"
    by (simp add: rows_of_def map_pixels_def in_grid_def pixel_rule_def)
  ultimately show ?thesis
    by blast
qed

theorem two_by_two_example_witness:
  "\<exists>out. script_main logo_fs =
             (Inr (), logo_fs\<lparr>files := (files logo_fs)(''docs/public/logo.png'' \<mapsto>
                Image_file (RGBA_image out))\<rparr>) \<and>
         rows_of out = [[(255, 255, 255, 0), (0, 0, 0, 255)],
                        [(240, 240, 240, 0), (239, 239, 239, 255)]]"
  using two_by_two_example
    [of logo_fs "''docs/public/logo.png''" logo_rgb "''docs/public/logo.png''"]
  by (simp add: script_main_def logo_fs_def logo_def logo_rgb_def)

text \<open>
  Claim C7. Before the per-pixel pass the image is converted to a buffer with an alpha
  channel: a run of the function whose input opens hands the converted image to the pass
  and writes what the pass returns. When the source has no alpha channel the converted
  buffer has the size and the colours of the source and alpha 255 at every pixel; when the
  source has an alpha channel the buffer is the source, its alpha values included.
\<close>

theorem image_is_converted_before_the_pass:
  assumes "Image_open fs input_path = Inr src" and "writable fs output_path"
  shows "\<exists>out. transparent_pass threshold (convert_RGBA src) = Inr out \<and>
           make_transparent fs input_path output_path threshold =
             (Inr (), fs\<lparr>files := (files fs)(output_path \<mapsto>
                Image_file (RGBA_image out))\<rparr>) \<and>
           (case src of
              RGB_image w h px \<Rightarrow>
                width (convert_RGBA src) = w \<and> height (convert_RGBA src) = h \<and>
                (\<forall>p. alpha_of (pixels (convert_RGBA src) p) = 255 \<and>
                     rgb_of (pixels (convert_RGBA src) p) = px p)
            | RGBA_image img \<Rightarrow> convert_RGBA src = img)"
proof -
  have "case src of
          RGB_image w h px \<Rightarrow>
            width (convert_RGBA src) = w \<and> height (convert_RGBA src) = h \<and>
            (\<forall>p. alpha_of (pixels (convert_RGBA src) p) = 255 \<and>
                 rgb_of (pixels (convert_RGBA src) p) = px p)
        | RGBA_image img \<Rightarrow> convert_RGBA src = img"
    by (cases src) (simp_all add: alpha_of_def rgb_of_def split: prod.splits)
  with assms show ?thesis
    by (simp add: make_transparent_ok transparent_pass_map_pixels)
qed

theorem image_is_converted_before_the_pass_witness:
  "(\<exists>out. transparent_pass 240 (convert_RGBA logo) = Inr out \<and>
      make_transparent logo_fs ''docs/public/logo.png'' ''docs/public/copy.png'' 240 =
        (Inr (), logo_fs\<lparr>files := (files logo_fs)(''docs/public/copy.png'' \<mapsto>
           Image_file (RGBA_image out))\<rparr>) \<and>
      width (convert_RGBA logo) = 2 \<and> height (convert_RGBA logo) = 2 \<and>
      (\<forall>p. alpha_of (pixels (convert_RGBA logo) p) = 255 \<and>
           rgb_of (pixels (convert_RGBA logo) p) = logo_rgb p)) \<and>
   (\<exists>out. transparent_pass 240 (convert_RGBA (RGBA_image faded)) = Inr out \<and>
      make_transparent faded_fs ''docs/public/faded.png'' ''docs/public/faded.png'' 240 =
        (Inr (), faded_fs\<lparr>files := (files faded_fs)(''docs/public/faded.png'' \<mapsto>
           Image_file (RGBA_image out))\<rparr>) \<and>
      convert_RGBA (RGBA_image faded) = faded)"
proof -
  have "Image_open logo_fs ''docs/public/logo.png'' = Inr logo"
    and "writable logo_fs ''docs/public/copy.png''"
    by (simp_all add: logo_fs_def Image_open_def)
  from image_is_converted_before_the_pass [OF this, of 240]
  have rgb: "\<exists>out. transparent_pass 240 (convert_RGBA logo) = Inr out \<and>
      make_transparent logo_fs ''docs/public/logo.png'' ''docs/public/copy.png'' 240 =
        (Inr (), logo_fs\<lparr>files := (files logo_fs)(''docs/public/copy.png'' \<mapsto>
           Image_file (RGBA_image out))\<rparr>) \<and>
      width (convert_RGBA logo) = 2 \<and> height (convert_RGBA logo) = 2 \<and>
      (\<forall>p. alpha_of (pixels (convert_RGBA logo) p) = 255 \<and>
           rgb_of (pixels (convert_RGBA logo) p) = logo_rgb p)"
    by (simp add: logo_def)
  have "Image_open faded_fs ''docs/public/faded.png'' = Inr (RGBA_image faded)"
    and "writable faded_fs ''docs/public/faded.png''"
    by (simp_all add: faded_fs_def Image_open_def)
  from image_is_converted_before_the_pass [OF this, of 240]
  have "\<exists>out. transparent_pass 240 (convert_RGBA (RGBA_image faded)) = Inr out \<and>
      make_transparent faded_fs ''docs/public/faded.png'' ''docs/public/faded.png'' 240 =
        (Inr (), faded_fs\<lparr>files := (files faded_fs)(''docs/public/faded.png'' \<mapsto>
           Image_file (RGBA_image out))\<rparr>) \<and>
      convert_RGBA (RGBA_image faded) = faded"
    by simp
  with rgb show ?thesis
    by blast
qed

text \<open>
  Claim C8. When the input path does not exist, or holds something that is not an
  image, the load step fails (with FileError, respectively DecodeError), the function
  fails with that error, and the file system afterwards is the file system before:
  nothing is written to the output path.
\<close>

theorem load_failure_writes_nothing:
  assumes "files fs input_path = None \<or> files fs input_path = Some Other_file"
  shows "Image_open fs input_path =
           Inl (if files fs input_path = None then FileError else DecodeError) \<and>
         make_transparent fs input_path output_path threshold =
           (Inl (if files fs input_path = None then FileError else DecodeError), fs)"
  using assms by (auto simp add: make_transparent_def Image_open_def)

theorem load_failure_writes_nothing_witness:
  "make_transparent logo_fs ''docs/public/missing.png'' ''docs/public/logo.png'' 240 =
     (Inl FileError, logo_fs) \<and>
   make_transparent logo_fs ''docs/README.md'' ''docs/public/logo.png'' 240 =
     (Inl DecodeError, logo_fs)"
  using load_failure_writes_nothing
      [of logo_fs "''docs/public/missing.png''" "''docs/public/logo.png''" 240]
    load_failure_writes_nothing
      [of logo_fs "''docs/README.md''" "''docs/public/logo.png''" 240]
  by (simp add: logo_fs_def)

text \<open>
  Claim C9. The pass never makes a pixel more opaque: at every coordinate the alpha
  after the pass is less than or equal to the alpha of the loaded image, which for a source
  without an alpha channel is 255 (\<open>alpha_of_source_never_increases\<close> above says it
  in terms of the source).
\<close>

theorem alpha_never_increases:
  "\<exists>out. transparent_pass threshold img = Inr out \<and>
         (\<forall>p. alpha_of (pixels out p) \<le> alpha_of (pixels img p))"
  by (simp add: transparent_pass_map_pixels map_pixels_at alpha_of_pixel_rule)

theorem alpha_never_increases_witness:
  "\<exists>out. transparent_pass 240 faded = Inr out \<and>
         (\<forall>p. alpha_of (pixels out p) \<le> alpha_of (pixels faded p)) \<and>
         alpha_of (pixels out (1, 0)) = 0 \<and> alpha_of (pixels faded (1, 0)) = 200"
proof -
  from alpha_never_increases [of 240 faded] obtain out
    where out: "transparent_pass 240 faded = Inr out"
      and le: "\<forall>p. alpha_of (pixels out p) \<le> alpha_of (pixels faded p)"
    by blast
  from out have "out = map_pixels 240 faded"
    by (simp add: transparent_pass_map_pixels)
  then have "alpha_of (pixels out (1, 0)) = 0 \<and> alpha_of (pixels faded (1, 0)) = 200"
    by (simp add: map_pixels_at in_grid_def pixel_rule_def alpha_of_def faded_def)
  with out le show ?thesis
    by blast
qed

text \<open>
  Claim C10. A pixel of the image leaves the pass with alpha 0 exactly when its red,
  green and blue channels are all greater than or equal to the threshold or its alpha was
  0 before. So a pixel can end fully transparent without being near white (the witness
  is the dark pixel (10, 20, 30, 0)), and no pixel with a positive alpha and a channel
  below the threshold ends transparent.
\<close>

theorem transparent_iff_near_white_or_transparent_before:
  assumes "x < width img" and "y < height img"
    and "pixels img (x, y) = (r, g, b, a)"
  shows "\<exists>out. transparent_pass threshold img = Inr out \<and>
           (alpha_of (pixels out (x, y)) = 0 \<longleftrightarrow>
              (threshold \<le> uint r \<and> threshold \<le> uint g \<and> threshold \<le> uint b) \<or> a = 0)"
  using assms
  by (auto simp add: transparent_pass_map_pixels map_pixels_at in_grid_def pixel_rule_def
      alpha_of_def)

theorem transparent_iff_near_white_or_transparent_before_witness:
  "(\<exists>out. transparent_pass 240 faded = Inr out \<and>
      (alpha_of (pixels out (0, 0)) = 0 \<longleftrightarrow>
         ((240::int) \<le> uint (10::u8) \<and> (240::int) \<le> uint (20::u8) \<and>
          (240::int) \<le> uint (30::u8)) \<or> (0::u8) = 0)) \<and>
   (\<exists>out. transparent_pass 240 faded = Inr out \<and> alpha_of (pixels out (0, 0)) = 0) \<and>
   \<not> (240::int) \<le> uint (10::u8)"
  using transparent_iff_near_white_or_transparent_before [of 0 faded 0 10 20 30 0 240]
  by (simp add: faded_def)

end
